theory Spec2Isabelle
  imports Main "HOL-Library.Word"
begin

section \<open>The OpenLST encoder and framer: python/openlst/openlst_mod.py\<close>

text \<open>
  The block \<open>openlst_mod\<close> has three methods: \<open>__init__\<close> stores the configuration,
  \<open>handle_msg\<close> frames one raw message and appends the frame to \<open>self._out_buffer\<close>,
  \<open>work\<close> hands queued entries to the scheduler's output array. Each method is a
  function from the object's state to its new state; a Python exception is the
  \<open>Inl\<close> branch of a sum, and an exception leaves the object as it was, since each
  method assigns to \<open>self\<close> only in statements no raising statement follows.
\<close>

subsection \<open>Bytes, errors and Python's list and bytes primitives\<close>

type_synonym byte = "8 word"
type_synonym frame = "byte list"

datatype error = ValueError | OverflowError

text \<open>\<open>xs * n\<close> on a Python list: \<open>n\<close> copies of \<open>xs\<close>, none when \<open>n \<le> 0\<close>.\<close>

definition py_repeat :: "'a list \<Rightarrow> int \<Rightarrow> 'a list" where
  "py_repeat xs n = concat (replicate (nat n) xs)"

text \<open>
  \<open>bytes(xs)\<close> and \<open>bytearray(xs)\<close> on a list of integers: ValueError unless every
  element is in \<open>range(256)\<close>.
\<close>

definition py_bytes :: "int list \<Rightarrow> error + byte list" where
  "py_bytes xs =
     (if list_all (\<lambda>x. 0 \<le> x \<and> x < 256) xs then Inr (map word_of_int xs)
      else Inl ValueError)"

text \<open>
  \<open>n.to_bytes(2, byteorder='little')\<close>: the low byte first; OverflowError when \<open>n\<close> is
  negative or does not fit two bytes.
\<close>

definition to_bytes2_little :: "int \<Rightarrow> error + byte list" where
  "to_bytes2_little n =
     (if 0 \<le> n \<and> n < 65536 then Inr [word_of_int (n mod 256), word_of_int (n div 256)]
      else Inl OverflowError)"

subsection \<open>The imported transforms and the object's state\<close>

text \<open>
  \<open>crc16\<close>, \<open>whiten\<close> and \<open>encode_fec\<close> are imported from the sibling modules
  \<open>.crc\<close>, \<open>.whitening\<close> and \<open>.fec\<close>. The framer only calls them, so they are
  parameters of the model: a checksum from bytes to a Python integer and two
  transforms from bytes to bytes.
\<close>

record externals =
  crc16 :: "byte list \<Rightarrow> int"
  whiten :: "byte list \<Rightarrow> byte list"
  encode_fec :: "byte list \<Rightarrow> byte list"

text \<open>
  The attributes \<open>__init__\<close> assigns. \<open>buff\<close> and \<open>out_buffer\<close> are \<open>self._buff\<close>
  and \<open>self._out_buffer\<close>; the latter is a Python list with one element per
  \<open>append\<close>, that is one bytearray per handled message.
\<close>

record openlst_mod =
  preamble_bytes :: int
  sync_byte1 :: int
  sync_byte0 :: int
  sync_words :: int
  flags :: int
  fec :: bool
  whitening :: bool
  buff :: "byte list"
  out_buffer :: "frame list"

text \<open>
  \<open>__init__\<close> (lines 41 to 67) stores its arguments and starts with empty buffers.
  It has no check and no \<open>raise\<close>; the result is a sum so that "construction
  fails" is a statement about it.
\<close>

definition init ::
  "int \<Rightarrow> int \<Rightarrow> int \<Rightarrow> int \<Rightarrow> int \<Rightarrow> bool \<Rightarrow> bool \<Rightarrow> error + openlst_mod" where
  "init preamble_bytes' sync_byte1' sync_byte0' sync_words' flags' fec' whitening' =
     Inr \<lparr>preamble_bytes = preamble_bytes', sync_byte1 = sync_byte1',
          sync_byte0 = sync_byte0', sync_words = sync_words', flags = flags',
          fec = fec', whitening = whitening', buff = [], out_buffer = []\<rparr>"

subsection \<open>handle_msg (lines 69 to 97)\<close>

text \<open>Lines 73 to 75: the preamble and the sync words, as a bytearray.\<close>

definition preamble :: "openlst_mod \<Rightarrow> error + byte list" where
  "preamble self =
     py_bytes (py_repeat [0xaa] (preamble_bytes self) @
               py_repeat [sync_byte1 self, sync_byte0 self] (sync_words self))"

text \<open>
  Lines 78 to 84: the length byte and the flags, then \<open>raw[2:]\<close>, then \<open>raw[0:2]\<close>.
  Python's slices do not raise: on a message shorter than two bytes \<open>raw[2:]\<close> is
  empty and \<open>raw[0:2]\<close> is the whole message, as \<open>drop\<close> and \<open>take\<close> are.
\<close>

definition content_body :: "openlst_mod \<Rightarrow> byte list \<Rightarrow> error + byte list" where
  "content_body self raw =
     (case py_bytes ([int (length raw) + 3] @ [flags self]) of
        Inl e \<Rightarrow> Inl e
      | Inr content \<Rightarrow> Inr (content @ drop 2 raw @ take 2 raw))"

text \<open>Lines 85 to 88: the checksum of the content so far, appended low byte first.\<close>

definition content_checksummed ::
  "externals \<Rightarrow> openlst_mod \<Rightarrow> byte list \<Rightarrow> error + byte list" where
  "content_checksummed ext self raw =
     (case content_body self raw of
        Inl e \<Rightarrow> Inl e
      | Inr content \<Rightarrow>
          (case to_bytes2_little (crc16 ext content) of
             Inl e \<Rightarrow> Inl e
           | Inr checksum \<Rightarrow> Inr (content @ checksum)))"

text \<open>Lines 91 to 94: whitening if enabled, then FEC if enabled.\<close>

definition transform :: "externals \<Rightarrow> openlst_mod \<Rightarrow> byte list \<Rightarrow> byte list" where
  "transform ext self content =
     (let content = (if whitening self then whiten ext content else content)
      in if fec self then encode_fec ext content else content)"

text \<open>
  The whole method. \<open>msg\<close> is the message's bytes, so \<open>bytearray(msg)\<close> is a copy of
  it. The preamble is built first, so its ValueError comes before the content's.
  Line 97 appends one entry, the preamble followed by the transformed content.
\<close>

definition handle_msg :: "externals \<Rightarrow> openlst_mod \<Rightarrow> byte list \<Rightarrow> error + openlst_mod" where
  "handle_msg ext self msg =
     (let raw = msg in
      case preamble self of
        Inl e \<Rightarrow> Inl e
      | Inr pre \<Rightarrow>
          (case content_checksummed ext self raw of
             Inl e \<Rightarrow> Inl e
           | Inr content \<Rightarrow>
               Inr (self\<lparr>out_buffer := out_buffer self @ [pre @ transform ext self content]\<rparr>)))"

subsection \<open>work (lines 100 to 135)\<close>

text \<open>
  What one call of \<open>work\<close> does besides changing the queue: the value it returns,
  the list it assigns to the slice \<open>output_items[0][:num_bytes_out]\<close> (\<open>None\<close> when
  there is no assignment) and the argument of \<open>self.consume(0, _)\<close> (\<open>None\<close> when it
  is not called).
\<close>

record work_result =
  returned :: nat
  assigned :: "frame list option"
  consumed :: "nat option"

text \<open>
  \<open>input_size\<close> and \<open>output_size\<close> are \<open>len(input_items[0])\<close> and
  \<open>len(output_items[0])\<close>. The slice assignment of line 120 is numpy's: it is given
  the slice's length and a list of queue entries, and it is the one statement of
  \<open>work\<close> that can raise, before \<open>self._out_buffer\<close> is assigned in line 124. It is
  the parameter \<open>setslice\<close>, so that \<open>work\<close> is stated for any array; the store of
  the block's own output array is \<open>uint8_setslice\<close> below. The \<open>print\<close> of line 121
  is left out.
\<close>

definition work ::
  "(nat \<Rightarrow> frame list \<Rightarrow> error + unit) \<Rightarrow> openlst_mod \<Rightarrow> nat \<Rightarrow> nat \<Rightarrow>
     error + openlst_mod \<times> work_result" where
  "work setslice self input_size output_size =
     (if length (out_buffer self) > 0 then
        (let buffer_size = length (out_buffer self);
             num_bytes_out = min buffer_size output_size;
             data = take num_bytes_out (out_buffer self);
             buff' = drop num_bytes_out (out_buffer self)
         in case setslice num_bytes_out data of
              Inl e \<Rightarrow> Inl e
            | Inr _ \<Rightarrow>
                Inr (self\<lparr>out_buffer := buff'\<rparr>,
                     \<lparr>returned = num_bytes_out, assigned = Some data,
                      consumed = (if output_size > num_bytes_out
                                  then Some (output_size - num_bytes_out) else None)\<rparr>))
      else Inr (self, \<lparr>returned = 0, assigned = None, consumed = Some input_size\<rparr>))"

text \<open>
  The store into the block's output array. \<open>out_sig\<close> is \<open>np.uint8\<close> (line 55), so
  \<open>output_items[0]\<close> is a one-dimensional array of bytes, and line 120 assigns to a
  slice of it the list \<open>data\<close>, whose elements are the bytearrays line 97 appended.
  numpy reads each bytearray as an array of bytes of its own, so a list of one
  or more entries has a dimension more than the slice and is refused with
  ValueError; the empty list is stored into the empty slice.
\<close>

definition uint8_setslice :: "nat \<Rightarrow> frame list \<Rightarrow> error + unit" where
  "uint8_setslice num_bytes_out data = (if data = [] then Inr () else Inl ValueError)"

subsection \<open>Concrete instances\<close>

text \<open>
  The configuration of the examples: four preamble bytes, the sync word
  \<open>0xd3 0x91\<close> twice, flags \<open>0xC0\<close>, whitening and FEC off, nothing queued. It is
  what \<open>openlst_mod(fec=False, whitening=False)\<close> constructs.
\<close>

definition config_example :: openlst_mod where
  "config_example =
     \<lparr>preamble_bytes = 4, sync_byte1 = 0xd3, sync_byte0 = 0x91, sync_words = 2,
      flags = 0xC0, fec = False, whitening = False, buff = [], out_buffer = []\<rparr>"

text \<open>
  Stand-ins for the imported transforms, to evaluate the framer on concrete
  messages: a checksum with the high byte \<open>0xBE\<close> and the content's length as its low
  byte, a whitening that adds its position to every byte, and an FEC that sends
  the content twice. The last two do not commute.
\<close>

definition stand_in :: externals where
  "stand_in =
     \<lparr>crc16 = (\<lambda>bs. 0xBE00 + int (length bs)),
      whiten = (\<lambda>bs. map (\<lambda>(i, b). b + of_nat i) (enumerate 0 bs)),
      encode_fec = (\<lambda>bs. bs @ bs)\<rparr>"

section \<open>Properties\<close>

subsection \<open>When each step returns\<close>

lemma py_bytes_Inr:
  "py_bytes xs = Inr bs \<longleftrightarrow> list_all (\<lambda>x. 0 \<le> x \<and> x < 256) xs \<and> bs = map word_of_int xs"
  by (auto simp: py_bytes_def)

lemma py_bytes_Inl:
  "py_bytes xs = Inl e \<longleftrightarrow> \<not> list_all (\<lambda>x. 0 \<le> x \<and> x < 256) xs \<and> e = ValueError"
  by (auto simp: py_bytes_def)

lemma content_body_Inr:
  "content_body self raw = Inr c \<longleftrightarrow>
     length raw \<le> 252 \<and> 0 \<le> flags self \<and> flags self < 256 \<and>
     c = word_of_int (int (length raw) + 3) # word_of_int (flags self) # drop 2 raw @ take 2 raw"
  by (auto simp: content_body_def py_bytes_def split: sum.splits if_splits)

lemma to_bytes2_little_Inr:
  "to_bytes2_little n = Inr bs \<longleftrightarrow>
     0 \<le> n \<and> n < 65536 \<and> bs = [word_of_int (n mod 256), word_of_int (n div 256)]"
  by (auto simp: to_bytes2_little_def)

lemma content_checksummed_Inr:
  "content_checksummed ext self raw = Inr seg \<longleftrightarrow>
     (\<exists>c. content_body self raw = Inr c \<and> 0 \<le> crc16 ext c \<and> crc16 ext c < 65536 \<and>
          seg = c @ [word_of_int (crc16 ext c mod 256), word_of_int (crc16 ext c div 256)])"
  by (auto simp: content_checksummed_def to_bytes2_little_def split: sum.splits if_splits)

lemma handle_msg_Inr:
  "handle_msg ext self raw = Inr self' \<longleftrightarrow>
     (\<exists>pre seg. preamble self = Inr pre \<and> content_checksummed ext self raw = Inr seg \<and>
        self' = self\<lparr>out_buffer := out_buffer self @ [pre @ transform ext self seg]\<rparr>)"
  by (auto simp: handle_msg_def split: sum.splits)

lemma preamble_Inr:
  "preamble self = Inr pre \<Longrightarrow>
     pre = replicate (nat (preamble_bytes self)) 0xAA @
           concat (replicate (nat (sync_words self))
                     [word_of_int (sync_byte1 self), word_of_int (sync_byte0 self)])"
  by (auto simp: preamble_def py_bytes_Inr py_repeat_def map_concat)

lemma uint_byte_of_int: "0 \<le> x \<Longrightarrow> x < 256 \<Longrightarrow> uint (word_of_int x :: byte) = x"
  by (simp add: uint_word_of_int take_bit_int_eq_self)

lemma unat_byte_of_nat: "n < 256 \<Longrightarrow> unat (word_of_int (int n) :: byte) = n"
  by (simp add: unat_of_nat take_bit_nat_eq_self)

lemma content_body_example:
  "content_body config_example [0x12, 0x34, 0x00, 0x01, 0xAB, 0xCD] =
     Inr [0x09, 0xC0, 0x00, 0x01, 0xAB, 0xCD, 0x12, 0x34]"
  by (simp add: content_body_def config_example_def py_bytes_def)

lemma content_checksummed_example:
  "content_checksummed stand_in config_example [0x12, 0x34, 0x00, 0x01, 0xAB, 0xCD] =
     Inr [0x09, 0xC0, 0x00, 0x01, 0xAB, 0xCD, 0x12, 0x34, 0x08, 0xBE]"
  by (simp add: content_checksummed_def content_body_example to_bytes2_little_def stand_in_def)

lemma preamble_example:
  "preamble config_example = Inr [0xAA, 0xAA, 0xAA, 0xAA, 0xD3, 0x91, 0xD3, 0x91]"
  by (simp add: preamble_def config_example_def py_bytes_def py_repeat_def eval_nat_numeral)

lemma content_checksummed_total:
  assumes "length raw \<le> 252" "0 \<le> flags self" "flags self < 256"
    and "\<forall>c. 0 \<le> crc16 ext c \<and> crc16 ext c < 65536"
  shows "\<exists>seg. content_checksummed ext self raw = Inr seg"
  using assms by (simp add: content_checksummed_Inr content_body_Inr)

lemma segment_length_byte:
  assumes "content_checksummed ext self raw = Inr seg"
  shows "unat (seg ! 0) = length raw + 3" and "length seg = length raw + 4"
proof -
  from assms obtain c where c: "content_body self raw = Inr c"
    and seg: "seg = c @ [word_of_int (crc16 ext c mod 256), word_of_int (crc16 ext c div 256)]"
    by (auto simp: content_checksummed_Inr)
  from c have len: "length raw \<le> 252"
    and cdef: "c = word_of_int (int (length raw) + 3) # word_of_int (flags self) # drop 2 raw @ take 2 raw"
    by (simp_all add: content_body_Inr)
  have "unat (word_of_int (int (length raw + 3)) :: byte) = length raw + 3"
    using len by (intro unat_byte_of_nat) simp
  then show "unat (seg ! 0) = length raw + 3"
    by (simp add: seg cdef add.commute)
  show "length seg = length raw + 4"
    by (simp add: seg cdef)
qed

lemma handle_msg_example:
  "handle_msg stand_in config_example [0x12, 0x34, 0x00, 0x01, 0xAB, 0xCD] =
     Inr (config_example\<lparr>out_buffer :=
       [[0xAA, 0xAA, 0xAA, 0xAA, 0xD3, 0x91, 0xD3, 0x91,
         0x09, 0xC0, 0x00, 0x01, 0xAB, 0xCD, 0x12, 0x34, 0x08, 0xBE]]\<rparr>)"
  by (simp add: handle_msg_def preamble_example content_checksummed_example transform_def)
     (simp add: config_example_def)

lemma handle_msg_example_both:
  "handle_msg stand_in (config_example\<lparr>fec := True, whitening := True\<rparr>)
       [0x12, 0x34, 0x00, 0x01, 0xAB, 0xCD] =
     Inr (config_example\<lparr>fec := True, whitening := True, out_buffer :=
       [[0xAA, 0xAA, 0xAA, 0xAA, 0xD3, 0x91, 0xD3, 0x91,
         0x09, 0xC1, 0x02, 0x04, 0xAF, 0xD2, 0x18, 0x3B, 0x10, 0xC7,
         0x09, 0xC1, 0x02, 0x04, 0xAF, 0xD2, 0x18, 0x3B, 0x10, 0xC7]]\<rparr>)"
  by (simp add: handle_msg_def preamble_def content_checksummed_def content_body_def
        to_bytes2_little_def transform_def py_bytes_def py_repeat_def eval_nat_numeral
        config_example_def stand_in_def)

lemma segment_layout:
  assumes "content_checksummed ext self raw = Inr seg"
  shows "\<exists>c0 c1. seg = [word_of_int (int (length raw) + 3), word_of_int (flags self)] @
           drop 2 raw @ take 2 raw @ [c0, c1]"
  using assms by (auto simp: content_checksummed_Inr content_body_Inr)

lemma transform_cases:
  "transform ext self x =
     (if whitening self then (if fec self then encode_fec ext (whiten ext x) else whiten ext x)
      else (if fec self then encode_fec ext x else x))"
  by (simp add: transform_def)

lemma length_concat_replicate_pair: "length (concat (replicate n [a, b])) = 2 * n"
  by (induction n) simp_all

lemma preamble_total:
  assumes "0 \<le> sync_byte1 self" "sync_byte1 self < 256"
    and "0 \<le> sync_byte0 self" "sync_byte0 self < 256"
  shows "\<exists>pre. preamble self = Inr pre"
  using assms by (auto simp: preamble_def py_bytes_def py_repeat_def list_all_iff)

lemma handle_msg_total:
  assumes "0 \<le> sync_byte1 self" "sync_byte1 self < 256"
    and "0 \<le> sync_byte0 self" "sync_byte0 self < 256"
    and "0 \<le> flags self" "flags self < 256" and "length raw \<le> 252"
    and "\<forall>c. 0 \<le> crc16 ext c \<and> crc16 ext c < 65536"
  shows "\<exists>self'. handle_msg ext self raw = Inr self'"
proof -
  from preamble_total [OF assms(1-4)] obtain pre where "preamble self = Inr pre" ..
  moreover from content_checksummed_total [OF assms(7,5,6,8)]
  obtain seg where "content_checksummed ext self raw = Inr seg" ..
  ultimately show ?thesis by (simp add: handle_msg_Inr)
qed

lemma preamble_sync_bytes:
  assumes "preamble self = Inr pre" and "0 < sync_words self"
  shows "0 \<le> sync_byte1 self \<and> sync_byte1 self < 256 \<and>
         0 \<le> sync_byte0 self \<and> sync_byte0 self < 256"
proof -
  from assms(2) obtain n where n: "nat (sync_words self) = Suc n"
    by (cases "nat (sync_words self)") auto
  from assms(1) show ?thesis
    by (simp add: preamble_def py_bytes_Inr py_repeat_def n)
qed

lemma handle_msg_queue_independent:
  "handle_msg ext (self\<lparr>out_buffer := q\<rparr>) raw =
     (case handle_msg ext self raw of
        Inl e \<Rightarrow> Inl e
      | Inr t \<Rightarrow> Inr (t\<lparr>out_buffer := q @ [last (out_buffer t)]\<rparr>))"
  by (simp add: handle_msg_def preamble_def content_checksummed_def content_body_def
        transform_def split: sum.splits)

lemma handle_msg_short_example:
  "handle_msg stand_in config_example [0x12] =
     Inr (config_example\<lparr>out_buffer :=
       [[0xAA, 0xAA, 0xAA, 0xAA, 0xD3, 0x91, 0xD3, 0x91, 0x04, 0xC0, 0x12, 0x03, 0xBE]]\<rparr>)"
  by (simp add: handle_msg_def preamble_def content_checksummed_def content_body_def
        to_bytes2_little_def transform_def py_bytes_def py_repeat_def eval_nat_numeral
        config_example_def stand_in_def)

lemma work_Inr:
  "work setslice self input_size output_size = Inr (self', r) \<longleftrightarrow>
     (if out_buffer self = [] then
        self' = self \<and> r = \<lparr>returned = 0, assigned = None, consumed = Some input_size\<rparr>
      else
        (\<exists>u. setslice (min (length (out_buffer self)) output_size)
                (take (min (length (out_buffer self)) output_size) (out_buffer self)) = Inr u) \<and>
        self' = self\<lparr>out_buffer :=
                  drop (min (length (out_buffer self)) output_size) (out_buffer self)\<rparr> \<and>
        r = \<lparr>returned = min (length (out_buffer self)) output_size,
             assigned = Some (take (min (length (out_buffer self)) output_size) (out_buffer self)),
             consumed = (if output_size > min (length (out_buffer self)) output_size
                         then Some (output_size - min (length (out_buffer self)) output_size)
                         else None)\<rparr>)"
  by (auto simp: work_def Let_def split: sum.splits)

lemma work_Inl:
  "work setslice self input_size output_size = Inl e \<longleftrightarrow>
     out_buffer self \<noteq> [] \<and>
     setslice (min (length (out_buffer self)) output_size)
       (take (min (length (out_buffer self)) output_size) (out_buffer self)) = Inl e"
  by (auto simp: work_def Let_def split: sum.splits)

lemma work_uint8_raises:
  assumes "out_buffer self \<noteq> []" and "0 < output_size"
  shows "work uint8_setslice self input_size output_size = Inl ValueError"
proof -
  have "take (min (length (out_buffer self)) output_size) (out_buffer self) \<noteq> []"
    using assms by (cases "out_buffer self") (simp_all add: min_def)
  then show ?thesis
    using assms(1) by (simp add: work_Inl uint8_setslice_def)
qed

lemma work_uint8_no_room:
  assumes "out_buffer self \<noteq> []"
  shows "work uint8_setslice self input_size 0 =
           Inr (self, \<lparr>returned = 0, assigned = Some [], consumed = None\<rparr>)"
  using assms by (simp add: work_def uint8_setslice_def)

subsection \<open>The length byte\<close>

text \<open>
  Claim C1, as amended. Line 79 writes \<open>len(raw) + 3\<close> into the length byte, the
  whole raw message counted, so the field is the number of bytes that follow it
  (flags, seqnum and data, HWID, checksum) and the segment is one byte longer than
  the field says. A segment is produced for every message of at most 252 bytes
  when the flags are a byte and the checksum fits 16 bits. For the raw message
  \<open>12 34 00 01 AB CD\<close> with flags \<open>0xC0\<close> the content before the checksum is
  \<open>09 C0 00 01 AB CD 12 34\<close>.
\<close>

theorem length_field_counts_following_bytes:
  "(\<forall>seg. content_checksummed ext self raw = Inr seg \<longrightarrow>
      unat (seg ! 0) = length raw + 3 \<and> length seg = unat (seg ! 0) + 1) \<and>
   (length raw \<le> 252 \<and> 0 \<le> flags self \<and> flags self < 256 \<and>
      (\<forall>c. 0 \<le> crc16 ext c \<and> crc16 ext c < 65536) \<longrightarrow>
      (\<exists>seg. content_checksummed ext self raw = Inr seg)) \<and>
   content_body config_example [0x12, 0x34, 0x00, 0x01, 0xAB, 0xCD] =
     Inr [0x09, 0xC0, 0x00, 0x01, 0xAB, 0xCD, 0x12, 0x34]"
  using segment_length_byte [of ext self raw] content_checksummed_total [of raw self ext]
    content_body_example
  by simp

text \<open>The theorem at the example message, with the stand-in checksum.\<close>

theorem length_field_counts_following_bytes_witness:
  "content_checksummed stand_in config_example [0x12, 0x34, 0x00, 0x01, 0xAB, 0xCD] =
     Inr [0x09, 0xC0, 0x00, 0x01, 0xAB, 0xCD, 0x12, 0x34, 0x08, 0xBE] \<and>
   unat ([0x09, 0xC0, 0x00, 0x01, 0xAB, 0xCD, 0x12, 0x34, 0x08, 0xBE :: byte] ! 0) =
     length [0x12, 0x34, 0x00, 0x01, 0xAB, 0xCD :: byte] + 3 \<and>
   length [0x09, 0xC0, 0x00, 0x01, 0xAB, 0xCD, 0x12, 0x34, 0x08, 0xBE :: byte] =
     unat ([0x09, 0xC0, 0x00, 0x01, 0xAB, 0xCD, 0x12, 0x34, 0x08, 0xBE :: byte] ! 0) + 1"
proof -
  note h = content_checksummed_example
  from length_field_counts_following_bytes
    [of stand_in config_example "[0x12, 0x34, 0x00, 0x01, 0xAB, 0xCD]"] h
  have "unat ([0x09, 0xC0, 0x00, 0x01, 0xAB, 0xCD, 0x12, 0x34, 0x08, 0xBE :: byte] ! 0) =
          length [0x12, 0x34, 0x00, 0x01, 0xAB, 0xCD :: byte] + 3 \<and>
        length [0x09, 0xC0, 0x00, 0x01, 0xAB, 0xCD, 0x12, 0x34, 0x08, 0xBE :: byte] =
          unat ([0x09, 0xC0, 0x00, 0x01, 0xAB, 0xCD, 0x12, 0x34, 0x08, 0xBE :: byte] ! 0) + 1"
    by blast
  with h show ?thesis by blast
qed

text \<open>
  Claim C1 as the specification states it fails: it gives the length byte of the
  example as \<open>0x07\<close>, that is \<open>3 + (len(raw) - 2)\<close>; the code writes \<open>0x09\<close>.
\<close>

theorem length_field_counterexample:
  "content_body config_example [0x12, 0x34, 0x00, 0x01, 0xAB, 0xCD] \<noteq>
     Inr [0x07, 0xC0, 0x00, 0x01, 0xAB, 0xCD, 0x12, 0x34] \<and>
   content_checksummed stand_in config_example [0x12, 0x34, 0x00, 0x01, 0xAB, 0xCD] =
     Inr [0x09, 0xC0, 0x00, 0x01, 0xAB, 0xCD, 0x12, 0x34, 0x08, 0xBE] \<and>
   unat (0x09 :: byte) \<noteq> 3 + (length [0x12, 0x34, 0x00, 0x01, 0xAB, 0xCD :: byte] - 2)"
  by (simp add: content_body_example content_checksummed_example)

subsection \<open>The checksum\<close>

text \<open>
  Claim C4. In every segment that lines 78 to 88 produce, the last two bytes are the
  checksum of all the bytes before them, which are the content from the length
  byte through the HWID, with the low byte first: read as a little-endian number
  they are the value \<open>crc16\<close> returned.
\<close>

theorem checksum_placement:
  "content_checksummed ext self raw = Inr seg \<Longrightarrow>
     2 \<le> length seg \<and>
     content_body self raw = Inr (take (length seg - 2) seg) \<and>
     drop (length seg - 2) seg =
       [word_of_int (crc16 ext (take (length seg - 2) seg) mod 256),
        word_of_int (crc16 ext (take (length seg - 2) seg) div 256)] \<and>
     uint (seg ! (length seg - 2)) + 256 * uint (seg ! (length seg - 1)) =
       crc16 ext (take (length seg - 2) seg)"
proof -
  assume "content_checksummed ext self raw = Inr seg"
  then obtain c where c: "content_body self raw = Inr c"
    and rng: "0 \<le> crc16 ext c" "crc16 ext c < 65536"
    and seg: "seg = c @ [word_of_int (crc16 ext c mod 256), word_of_int (crc16 ext c div 256)]"
    by (auto simp: content_checksummed_Inr)
  have lo: "uint (word_of_int (crc16 ext c mod 256) :: byte) = crc16 ext c mod 256"
    by (rule uint_byte_of_int) simp_all
  have hi: "uint (word_of_int (crc16 ext c div 256) :: byte) = crc16 ext c div 256"
  proof (rule uint_byte_of_int)
    show "0 \<le> crc16 ext c div 256" using rng by (simp add: pos_imp_zdiv_nonneg_iff)
    show "crc16 ext c div 256 < 256" using rng by linarith
  qed
  have tk: "take (length seg - 2) seg = c" by (simp add: seg)
  have n0: "seg ! (length seg - 2) = word_of_int (crc16 ext c mod 256)"
    by (simp add: seg nth_append)
  have n1: "seg ! (length seg - 1) = word_of_int (crc16 ext c div 256)"
    by (simp add: seg nth_append)
  show ?thesis
    unfolding tk n0 n1 lo hi using c by (simp add: seg)
qed

text \<open>The theorem at the example message: the stand-in checksum is \<open>0xBE08\<close>.\<close>

theorem checksum_placement_witness:
  "content_checksummed stand_in config_example [0x12, 0x34, 0x00, 0x01, 0xAB, 0xCD] =
     Inr [0x09, 0xC0, 0x00, 0x01, 0xAB, 0xCD, 0x12, 0x34, 0x08, 0xBE] \<and>
   crc16 stand_in [0x09, 0xC0, 0x00, 0x01, 0xAB, 0xCD, 0x12, 0x34] = 0xBE08 \<and>
   uint (0x08 :: byte) + 256 * uint (0xBE :: byte) =
     crc16 stand_in [0x09, 0xC0, 0x00, 0x01, 0xAB, 0xCD, 0x12, 0x34]"
proof -
  note e = content_checksummed_example
  have c: "crc16 stand_in [0x09, 0xC0, 0x00, 0x01, 0xAB, 0xCD, 0x12, 0x34] = 0xBE08"
    by (simp add: stand_in_def)
  from checksum_placement [OF e]
  have "uint (0x08 :: byte) + 256 * uint (0xBE :: byte) =
          crc16 stand_in [0x09, 0xC0, 0x00, 0x01, 0xAB, 0xCD, 0x12, 0x34]"
    by simp
  with e c show ?thesis by simp
qed

subsection \<open>Whitening and FEC\<close>

text \<open>
  Claim C5. The transform of lines 91 to 94 is \<open>encode_fec (whiten x)\<close> when both
  flags are set, \<open>whiten x\<close> or \<open>encode_fec x\<close> when one is, and \<open>x\<close> when none
  is; and the entry \<open>handle_msg\<close> appends is the preamble followed by that transform
  of the checksummed segment.
\<close>

theorem whitening_before_fec:
  "transform ext self x =
     (if whitening self then (if fec self then encode_fec ext (whiten ext x) else whiten ext x)
      else (if fec self then encode_fec ext x else x)) \<and>
   (\<forall>self'. handle_msg ext self raw = Inr self' \<longrightarrow>
      (\<exists>pre seg. preamble self = Inr pre \<and> content_checksummed ext self raw = Inr seg \<and>
         out_buffer self' = out_buffer self @
           [pre @ (if whitening self \<and> fec self then encode_fec ext (whiten ext seg)
                   else if whitening self then whiten ext seg
                   else if fec self then encode_fec ext seg
                   else seg)]))"
proof (intro conjI allI impI)
  show "transform ext self x =
     (if whitening self then (if fec self then encode_fec ext (whiten ext x) else whiten ext x)
      else (if fec self then encode_fec ext x else x))"
    by (rule transform_cases)
next
  fix self' assume "handle_msg ext self raw = Inr self'"
  then obtain pre seg where "preamble self = Inr pre" "content_checksummed ext self raw = Inr seg"
    "self' = self\<lparr>out_buffer := out_buffer self @ [pre @ transform ext self seg]\<rparr>"
    by (auto simp: handle_msg_Inr)
  then show "\<exists>pre seg. preamble self = Inr pre \<and> content_checksummed ext self raw = Inr seg \<and>
         out_buffer self' = out_buffer self @
           [pre @ (if whitening self \<and> fec self then encode_fec ext (whiten ext seg)
                   else if whitening self then whiten ext seg
                   else if fec self then encode_fec ext seg
                   else seg)]"
    by (intro exI [of _ pre] exI [of _ seg]) (simp add: transform_cases)
qed

text \<open>
  The theorem at the example message with both flags set. With the stand-ins the
  other order, whitening after FEC, would give different bytes.
\<close>

theorem whitening_before_fec_witness:
  "handle_msg stand_in (config_example\<lparr>fec := True, whitening := True\<rparr>)
       [0x12, 0x34, 0x00, 0x01, 0xAB, 0xCD] =
     Inr (config_example\<lparr>fec := True, whitening := True, out_buffer :=
       [[0xAA, 0xAA, 0xAA, 0xAA, 0xD3, 0x91, 0xD3, 0x91,
         0x09, 0xC1, 0x02, 0x04, 0xAF, 0xD2, 0x18, 0x3B, 0x10, 0xC7,
         0x09, 0xC1, 0x02, 0x04, 0xAF, 0xD2, 0x18, 0x3B, 0x10, 0xC7]]\<rparr>) \<and>
   (\<exists>pre seg.
      preamble (config_example\<lparr>fec := True, whitening := True\<rparr>) = Inr pre \<and>
      content_checksummed stand_in (config_example\<lparr>fec := True, whitening := True\<rparr>)
        [0x12, 0x34, 0x00, 0x01, 0xAB, 0xCD] = Inr seg \<and>
      [[0xAA, 0xAA, 0xAA, 0xAA, 0xD3, 0x91, 0xD3, 0x91,
        0x09, 0xC1, 0x02, 0x04, 0xAF, 0xD2, 0x18, 0x3B, 0x10, 0xC7,
        0x09, 0xC1, 0x02, 0x04, 0xAF, 0xD2, 0x18, 0x3B, 0x10, 0xC7]] =
      [pre @ encode_fec stand_in (whiten stand_in seg)]) \<and>
   encode_fec stand_in (whiten stand_in
       [0x09, 0xC0, 0x00, 0x01, 0xAB, 0xCD, 0x12, 0x34, 0x08, 0xBE]) \<noteq>
     whiten stand_in (encode_fec stand_in
       [0x09, 0xC0, 0x00, 0x01, 0xAB, 0xCD, 0x12, 0x34, 0x08, 0xBE])"
proof -
  note h = handle_msg_example_both
  from whitening_before_fec [of stand_in "config_example\<lparr>fec := True, whitening := True\<rparr>"
      "[]" "[0x12, 0x34, 0x00, 0x01, 0xAB, 0xCD]"] h
  have "\<exists>pre seg.
      preamble (config_example\<lparr>fec := True, whitening := True\<rparr>) = Inr pre \<and>
      content_checksummed stand_in (config_example\<lparr>fec := True, whitening := True\<rparr>)
        [0x12, 0x34, 0x00, 0x01, 0xAB, 0xCD] = Inr seg \<and>
      [[0xAA, 0xAA, 0xAA, 0xAA, 0xD3, 0x91, 0xD3, 0x91,
        0x09, 0xC1, 0x02, 0x04, 0xAF, 0xD2, 0x18, 0x3B, 0x10, 0xC7,
        0x09, 0xC1, 0x02, 0x04, 0xAF, 0xD2, 0x18, 0x3B, 0x10, 0xC7]] =
      [pre @ encode_fec stand_in (whiten stand_in seg)]"
    by (simp add: config_example_def)
  moreover have "encode_fec stand_in (whiten stand_in
       [0x09, 0xC0, 0x00, 0x01, 0xAB, 0xCD, 0x12, 0x34, 0x08, 0xBE]) \<noteq>
     whiten stand_in (encode_fec stand_in
       [0x09, 0xC0, 0x00, 0x01, 0xAB, 0xCD, 0x12, 0x34, 0x08, 0xBE])"
    by (simp add: stand_in_def)
  ultimately show ?thesis using h by blast
qed

subsection \<open>The position of the HWID\<close>

text \<open>
  Claim C6. For a raw message of at least two bytes, the segment is the length
  byte and the flags, then \<open>raw[2:]\<close> unchanged, then the first two bytes of \<open>raw\<close>,
  then the two checksum bytes: the HWID stands at offsets \<open>len - 4\<close> and \<open>len - 3\<close> of
  the segment, right before the checksum, and the segment starts with the length
  byte and the flags.
\<close>

theorem hwid_relocation:
  assumes "2 \<le> length raw" and "content_checksummed ext self raw = Inr seg"
  shows "length seg = length raw + 4 \<and>
         take 2 seg = [word_of_int (int (length raw) + 3), word_of_int (flags self)] \<and>
         take (length raw - 2) (drop 2 seg) = drop 2 raw \<and>
         take 2 (drop (length raw) seg) = take 2 raw \<and>
         seg ! (length seg - 4) = raw ! 0 \<and> seg ! (length seg - 3) = raw ! 1 \<and>
         length (drop (length raw + 2) seg) = 2 \<and>
         seg = take 2 seg @ drop 2 raw @ take 2 raw @ drop (length raw + 2) seg \<and>
         uint (seg ! 1) = flags self"
proof -
  from segment_layout [OF assms(2)] obtain c0 c1 where
    seg: "seg = [word_of_int (int (length raw) + 3), word_of_int (flags self)] @
            drop 2 raw @ take 2 raw @ [c0, c1]"
    by blast
  from assms(1) obtain h0 h1 rest where raw: "raw = h0 # h1 # rest"
    by (cases raw; cases "tl raw") auto
  have len: "length seg = length raw + 4" by (simp add: seg raw)
  define L :: byte where "L = word_of_int (int (length raw) + 3)"
  define F :: byte where "F = word_of_int (flags self)"
  have seg': "seg = L # F # rest @ [h0, h1, c0, c1]"
    by (simp add: seg raw L_def F_def)
  have "take 2 seg = [L, F]" by (simp add: seg')
  moreover have "take (length raw - 2) (drop 2 seg) = drop 2 raw" by (simp add: seg' raw)
  moreover have "take 2 (drop (length raw) seg) = take 2 raw" by (simp add: seg' raw)
  moreover have "seg ! (length seg - 4) = raw ! 0" by (simp add: seg' raw nth_append)
  moreover have "seg ! (length seg - 3) = raw ! 1" by (simp add: seg' raw nth_append)
  moreover have "drop (length raw + 2) seg = [c0, c1]" by (simp add: seg' raw)
  moreover have "uint (seg ! 1) = flags self"
  proof -
    from assms(2) have "0 \<le> flags self" and "flags self < 256"
      by (auto simp: content_checksummed_Inr content_body_Inr)
    then show ?thesis by (simp add: seg' F_def uint_byte_of_int)
  qed
  ultimately show ?thesis
    using len seg' by (simp add: raw L_def F_def)
qed

text \<open>The theorem at the example message: HWID \<open>12 34\<close> at offset 6.\<close>

theorem hwid_relocation_witness:
  "2 \<le> length [0x12, 0x34, 0x00, 0x01, 0xAB, 0xCD :: byte] \<and>
   content_checksummed stand_in config_example [0x12, 0x34, 0x00, 0x01, 0xAB, 0xCD] =
     Inr [0x09, 0xC0, 0x00, 0x01, 0xAB, 0xCD, 0x12, 0x34, 0x08, 0xBE] \<and>
   take 4 (drop 2 [0x09, 0xC0, 0x00, 0x01, 0xAB, 0xCD, 0x12, 0x34, 0x08, 0xBE :: byte]) =
     [0x00, 0x01, 0xAB, 0xCD] \<and>
   take 2 (drop 6 [0x09, 0xC0, 0x00, 0x01, 0xAB, 0xCD, 0x12, 0x34, 0x08, 0xBE :: byte]) =
     [0x12, 0x34]"
proof -
  have h: "2 \<le> length [0x12, 0x34, 0x00, 0x01, 0xAB, 0xCD :: byte]" by simp
  from hwid_relocation [OF h content_checksummed_example]
  have "take 4 (drop 2 [0x09, 0xC0, 0x00, 0x01, 0xAB, 0xCD, 0x12, 0x34, 0x08, 0xBE :: byte]) =
          [0x00, 0x01, 0xAB, 0xCD] \<and>
        take 2 (drop 6 [0x09, 0xC0, 0x00, 0x01, 0xAB, 0xCD, 0x12, 0x34, 0x08, 0xBE :: byte]) =
          [0x12, 0x34]"
    by simp
  with h content_checksummed_example show ?thesis by blast
qed

subsection \<open>The preamble and the sync words\<close>

text \<open>
  Claim C7. The entry \<open>handle_msg\<close> appends starts with \<open>preamble_bytes\<close> copies of
  \<open>0xAA\<close> and \<open>sync_words\<close> copies of the pair \<open>sync_byte1\<close>, \<open>sync_byte0\<close>;
  the transform is applied to the segment only, after this prefix, and the prefix is
  the same whatever the \<open>fec\<close> and \<open>whitening\<close> flags are. The sync bytes are
  the configured values themselves: where a sync word is sent they are in
  \<open>range(256)\<close>, or \<open>handle_msg\<close> would have raised. (A negative count is no
  copy, as Python's list repetition has it.)
\<close>

theorem preamble_purity:
  assumes "handle_msg ext self raw = Inr self'"
  shows "\<exists>seg. content_checksummed ext self raw = Inr seg \<and>
           out_buffer self' = out_buffer self @
             [replicate (nat (preamble_bytes self)) 0xAA @
              concat (replicate (nat (sync_words self))
                        [word_of_int (sync_byte1 self), word_of_int (sync_byte0 self)]) @
              transform ext self seg] \<and>
           take (nat (preamble_bytes self) + 2 * nat (sync_words self)) (last (out_buffer self')) =
             replicate (nat (preamble_bytes self)) 0xAA @
             concat (replicate (nat (sync_words self))
                       [word_of_int (sync_byte1 self), word_of_int (sync_byte0 self)]) \<and>
           preamble (self\<lparr>fec := f, whitening := w\<rparr>) = preamble self \<and>
           (0 < sync_words self \<longrightarrow>
              uint (word_of_int (sync_byte1 self) :: byte) = sync_byte1 self \<and>
              uint (word_of_int (sync_byte0 self) :: byte) = sync_byte0 self)"
proof -
  from assms obtain pre seg where pre: "preamble self = Inr pre"
    and seg: "content_checksummed ext self raw = Inr seg"
    and self': "self' = self\<lparr>out_buffer := out_buffer self @ [pre @ transform ext self seg]\<rparr>"
    by (auto simp: handle_msg_Inr)
  define pat :: "byte list" where
    "pat = replicate (nat (preamble_bytes self)) 0xAA @
           concat (replicate (nat (sync_words self))
                     [word_of_int (sync_byte1 self), word_of_int (sync_byte0 self)])"
  have p: "pre = pat" unfolding pat_def by (rule preamble_Inr [OF pre])
  have len: "length pat = nat (preamble_bytes self) + 2 * nat (sync_words self)"
    by (simp add: pat_def length_concat_replicate_pair)
  have "out_buffer self' = out_buffer self @ [pat @ transform ext self seg]"
    by (simp add: self' p)
  moreover have "take (nat (preamble_bytes self) + 2 * nat (sync_words self))
                   (last (out_buffer self')) = pat"
    by (simp add: self' p len [symmetric])
  moreover have "preamble (self\<lparr>fec := f, whitening := w\<rparr>) = preamble self"
    by (simp add: preamble_def)
  moreover have "0 < sync_words self \<longrightarrow>
      uint (word_of_int (sync_byte1 self) :: byte) = sync_byte1 self \<and>
      uint (word_of_int (sync_byte0 self) :: byte) = sync_byte0 self"
    using preamble_sync_bytes [OF pre] by (simp add: uint_byte_of_int)
  ultimately show ?thesis using seg unfolding pat_def by simp
qed

text \<open>The theorem at the example message with both flags set: \<open>AA AA AA AA D3 91 D3 91\<close>.\<close>

theorem preamble_purity_witness:
  "handle_msg stand_in (config_example\<lparr>fec := True, whitening := True\<rparr>)
       [0x12, 0x34, 0x00, 0x01, 0xAB, 0xCD] =
     Inr (config_example\<lparr>fec := True, whitening := True, out_buffer :=
       [[0xAA, 0xAA, 0xAA, 0xAA, 0xD3, 0x91, 0xD3, 0x91,
         0x09, 0xC1, 0x02, 0x04, 0xAF, 0xD2, 0x18, 0x3B, 0x10, 0xC7,
         0x09, 0xC1, 0x02, 0x04, 0xAF, 0xD2, 0x18, 0x3B, 0x10, 0xC7]]\<rparr>) \<and>
   take 8 [0xAA, 0xAA, 0xAA, 0xAA, 0xD3, 0x91, 0xD3, 0x91,
         0x09, 0xC1, 0x02, 0x04, 0xAF, 0xD2, 0x18, 0x3B, 0x10, 0xC7,
         0x09, 0xC1, 0x02, 0x04, 0xAF, 0xD2, 0x18, 0x3B, 0x10, 0xC7 :: byte] =
     replicate 4 0xAA @ concat (replicate 2 [0xD3, 0x91])"
proof -
  note h = handle_msg_example_both
  from preamble_purity [OF h, where f = True and w = True]
  have "take 8 [0xAA, 0xAA, 0xAA, 0xAA, 0xD3, 0x91, 0xD3, 0x91,
         0x09, 0xC1, 0x02, 0x04, 0xAF, 0xD2, 0x18, 0x3B, 0x10, 0xC7,
         0x09, 0xC1, 0x02, 0x04, 0xAF, 0xD2, 0x18, 0x3B, 0x10, 0xC7 :: byte] =
     replicate 4 0xAA @ concat (replicate 2 [0xD3, 0x91])"
    by (elim exE conjE) (simp add: config_example_def)
  with h show ?thesis by blast
qed

subsection \<open>Messages shorter than two bytes\<close>

text \<open>
  Claim C3, as amended. \<open>handle_msg\<close> has no check of the message's length, and the
  slices of lines 82 and 84 do not raise. A raw message of fewer than two bytes is
  framed like any other: when the preamble is built and the flags are a byte and
  the checksum fits 16 bits, exactly one entry is appended to the queue, the
  preamble followed by the transform of length byte, flags, the raw bytes and the
  checksum. What \<open>handle_msg\<close> then does with a later message \<open>raw2\<close> is what it
  does on the queue before, the new entry appended after the ones queued.
\<close>

theorem short_raw_is_framed:
  assumes "length raw < 2" and "preamble self = Inr pre"
    and "0 \<le> flags self" and "flags self < 256"
    and "body = [word_of_int (int (length raw) + 3), word_of_int (flags self)] @ raw"
    and "0 \<le> crc16 ext body" and "crc16 ext body < 65536"
    and "self' = self\<lparr>out_buffer := out_buffer self @
           [pre @ transform ext self
              (body @ [word_of_int (crc16 ext body mod 256),
                       word_of_int (crc16 ext body div 256)])]\<rparr>"
  shows "handle_msg ext self raw = Inr self' \<and>
         handle_msg ext self' raw2 =
           (case handle_msg ext self raw2 of
              Inl e \<Rightarrow> Inl e
            | Inr t \<Rightarrow> Inr (t\<lparr>out_buffer := out_buffer self' @ [last (out_buffer t)]\<rparr>))"
proof
  have "content_body self raw = Inr body"
    using assms(1,3,4,5) by (simp add: content_body_Inr)
  then have "content_checksummed ext self raw =
      Inr (body @ [word_of_int (crc16 ext body mod 256), word_of_int (crc16 ext body div 256)])"
    using assms(6,7) by (simp add: content_checksummed_Inr)
  then show "handle_msg ext self raw = Inr self'"
    using assms(2,8) by (simp add: handle_msg_Inr)
next
  show "handle_msg ext self' raw2 =
           (case handle_msg ext self raw2 of
              Inl e \<Rightarrow> Inl e
            | Inr t \<Rightarrow> Inr (t\<lparr>out_buffer := out_buffer self' @ [last (out_buffer t)]\<rparr>))"
    unfolding assms(8) by (simp add: handle_msg_queue_independent split: sum.splits)
qed

text \<open>
  The theorem at the one-byte message \<open>12\<close>, followed by the example message:
  both are queued.
\<close>

theorem short_raw_is_framed_witness:
  "length [0x12 :: byte] < 2 \<and>
   preamble config_example = Inr [0xAA, 0xAA, 0xAA, 0xAA, 0xD3, 0x91, 0xD3, 0x91] \<and>
   handle_msg stand_in config_example [0x12] =
     Inr (config_example\<lparr>out_buffer :=
       [[0xAA, 0xAA, 0xAA, 0xAA, 0xD3, 0x91, 0xD3, 0x91, 0x04, 0xC0, 0x12, 0x03, 0xBE]]\<rparr>) \<and>
   handle_msg stand_in
       (config_example\<lparr>out_buffer :=
         [[0xAA, 0xAA, 0xAA, 0xAA, 0xD3, 0x91, 0xD3, 0x91, 0x04, 0xC0, 0x12, 0x03, 0xBE]]\<rparr>)
       [0x12, 0x34, 0x00, 0x01, 0xAB, 0xCD] =
     Inr (config_example\<lparr>out_buffer :=
       [[0xAA, 0xAA, 0xAA, 0xAA, 0xD3, 0x91, 0xD3, 0x91, 0x04, 0xC0, 0x12, 0x03, 0xBE],
        [0xAA, 0xAA, 0xAA, 0xAA, 0xD3, 0x91, 0xD3, 0x91,
         0x09, 0xC0, 0x00, 0x01, 0xAB, 0xCD, 0x12, 0x34, 0x08, 0xBE]]\<rparr>)"
proof -
  have h1: "length [0x12 :: byte] < 2" by simp
  have h3: "0 \<le> flags config_example" and h4: "flags config_example < 256"
    by (simp_all add: config_example_def)
  have h5: "[0x04, 0xC0, 0x12 :: byte] =
      [word_of_int (int (length [0x12 :: byte]) + 3), word_of_int (flags config_example)] @ [0x12]"
    by (simp add: config_example_def)
  have h6: "0 \<le> crc16 stand_in [0x04, 0xC0, 0x12]"
    and h7: "crc16 stand_in [0x04, 0xC0, 0x12] < 65536"
    by (simp_all add: stand_in_def)
  have h8: "config_example\<lparr>out_buffer :=
       [[0xAA, 0xAA, 0xAA, 0xAA, 0xD3, 0x91, 0xD3, 0x91, 0x04, 0xC0, 0x12, 0x03, 0xBE]]\<rparr> =
     config_example\<lparr>out_buffer := out_buffer config_example @
       [[0xAA, 0xAA, 0xAA, 0xAA, 0xD3, 0x91, 0xD3, 0x91] @ transform stand_in config_example
          ([0x04, 0xC0, 0x12] @ [word_of_int (crc16 stand_in [0x04, 0xC0, 0x12] mod 256),
                       word_of_int (crc16 stand_in [0x04, 0xC0, 0x12] div 256)])]\<rparr>"
    by (simp add: transform_def) (simp add: config_example_def stand_in_def)
  from short_raw_is_framed [OF h1 preamble_example h3 h4 h5 h6 h7 h8,
      of "[0x12, 0x34, 0x00, 0x01, 0xAB, 0xCD]"]
  show ?thesis
    using h1 preamble_example by (simp add: handle_msg_example)
qed

text \<open>
  Claim C3 as the specification states it fails: the one-byte message \<open>12\<close> and the
  empty message do not fail, and each puts an entry into the queue.
\<close>

theorem short_raw_counterexample:
  "length [0x12 :: byte] < 2 \<and>
   handle_msg stand_in config_example [0x12] =
     Inr (config_example\<lparr>out_buffer :=
       [[0xAA, 0xAA, 0xAA, 0xAA, 0xD3, 0x91, 0xD3, 0x91, 0x04, 0xC0, 0x12, 0x03, 0xBE]]\<rparr>) \<and>
   handle_msg stand_in config_example [] =
     Inr (config_example\<lparr>out_buffer :=
       [[0xAA, 0xAA, 0xAA, 0xAA, 0xD3, 0x91, 0xD3, 0x91, 0x03, 0xC0, 0x02, 0xBE]]\<rparr>)"
  by (simp add: handle_msg_def preamble_def content_checksummed_def content_body_def
        to_bytes2_little_def transform_def py_bytes_def py_repeat_def eval_nat_numeral
        config_example_def stand_in_def)

subsection \<open>Construction\<close>

text \<open>
  Claim C9, as amended. \<open>__init__\<close> validates nothing and cannot fail: whatever the
  arguments are, negative repetition counts included, it returns an instance that
  holds them as given, with an empty queue. At encoding a negative count gives the
  preamble a count of 0 gives: with both counts negative or 0 the preamble is
  empty.
\<close>

theorem init_stores_any_configuration:
  "init pb b1 b0 sw fl fe wh =
     Inr \<lparr>preamble_bytes = pb, sync_byte1 = b1, sync_byte0 = b0, sync_words = sw,
          flags = fl, fec = fe, whitening = wh, buff = [], out_buffer = []\<rparr> \<and>
   preamble (self\<lparr>preamble_bytes := pb, sync_words := sw\<rparr>) =
     preamble (self\<lparr>preamble_bytes := max 0 pb, sync_words := max 0 sw\<rparr>) \<and>
   preamble (self\<lparr>preamble_bytes := - int a, sync_words := - int b\<rparr>) = Inr []"
proof (intro conjI)
  show "init pb b1 b0 sw fl fe wh =
     Inr \<lparr>preamble_bytes = pb, sync_byte1 = b1, sync_byte0 = b0, sync_words = sw,
          flags = fl, fec = fe, whitening = wh, buff = [], out_buffer = []\<rparr>"
    by (simp add: init_def)
next
  have "nat (max 0 pb) = nat pb" and "nat (max 0 sw) = nat sw"
    by simp_all
  then show "preamble (self\<lparr>preamble_bytes := pb, sync_words := sw\<rparr>) =
     preamble (self\<lparr>preamble_bytes := max 0 pb, sync_words := max 0 sw\<rparr>)"
    by (simp add: preamble_def py_repeat_def)
next
  show "preamble (self\<lparr>preamble_bytes := - int a, sync_words := - int b\<rparr>) = Inr []"
    by (simp add: preamble_def py_repeat_def py_bytes_def)
qed

text \<open>
  Claim C9 as the specification states it fails: with \<open>preamble_bytes = -1\<close> and
  \<open>sync_words = -2\<close> the constructor returns an instance, and \<open>handle_msg\<close> builds
  a frame from it, without preamble and sync words.
\<close>

theorem invalid_config_counterexample:
  "init (- 1) 0xd3 0x91 (- 2) 0xC0 False False =
     Inr (config_example\<lparr>preamble_bytes := - 1, sync_words := - 2\<rparr>) \<and>
   handle_msg stand_in (config_example\<lparr>preamble_bytes := - 1, sync_words := - 2\<rparr>)
       [0x12, 0x34, 0x00, 0x01, 0xAB, 0xCD] =
     Inr (config_example\<lparr>preamble_bytes := - 1, sync_words := - 2, out_buffer :=
       [[0x09, 0xC0, 0x00, 0x01, 0xAB, 0xCD, 0x12, 0x34, 0x08, 0xBE]]\<rparr>)"
  by (simp add: init_def handle_msg_def preamble_def content_checksummed_def content_body_def
        to_bytes2_little_def transform_def py_bytes_def py_repeat_def eval_nat_numeral
        config_example_def stand_in_def)

subsection \<open>work on an empty queue\<close>

text \<open>
  Claim C8. When the queue is empty, \<open>work\<close> returns 0 whatever the output's
  capacity is, assigns nothing to the output array, leaves the object as it is, and
  calls \<open>consume\<close> with the whole length of the input. The array store is not
  reached, so this holds for every \<open>setslice\<close>.
\<close>

theorem idle_queue:
  assumes "out_buffer self = []"
  shows "work setslice self input_size output_size =
           Inr (self, \<lparr>returned = 0, assigned = None, consumed = Some input_size\<rparr>)"
  using assms by (simp add: work_def)

text \<open>The theorem with 7 input items, room for 4096 and a store that would raise.\<close>

theorem idle_queue_witness:
  "out_buffer config_example = [] \<and>
   work (\<lambda>n data. Inl ValueError) config_example 7 4096 =
     Inr (config_example, \<lparr>returned = 0, assigned = None, consumed = Some 7\<rparr>)"
proof -
  have h: "out_buffer config_example = []" by (simp add: config_example_def)
  from idle_queue [OF h] h show ?thesis by blast
qed

subsection \<open>work on a queue that holds frames\<close>

text \<open>
  Claim C10, evaluated on the code. Lines 113 to 131 set out to remove
  \<open>min k c\<close> entries from the front of the queue and to return their number, but
  line 120 comes first and stores the entries, whole bytearrays, into a slice of
  bytes. With the frame of the example message queued and room for 4096 bytes,
  and with three entries queued and room for 2, \<open>work\<close> raises ValueError: no entry
  is removed and nothing is returned.
\<close>

theorem work_on_queued_entries:
  "work uint8_setslice
       (config_example\<lparr>out_buffer :=
         [[0xAA, 0xAA, 0xAA, 0xAA, 0xD3, 0x91, 0xD3, 0x91,
           0x09, 0xC0, 0x00, 0x01, 0xAB, 0xCD, 0x12, 0x34, 0x08, 0xBE]]\<rparr>) 4096 4096 =
     Inl ValueError \<and>
   work uint8_setslice
       (config_example\<lparr>out_buffer := [[0x01], [0x02, 0x03], [0x04]]\<rparr>) 2 2 =
     Inl ValueError"
  by (simp add: work_uint8_raises)

text \<open>
  Claim C2, evaluated on the code. With one frame of 10 bytes queued and a
  capacity of 4, \<open>work\<close> takes \<open>min 1 4 = 1\<close> entry of the queue, the whole frame,
  where the claim has it take 4 bytes of the frame. The store of that entry into
  the output's slice of bytes raises ValueError, so no byte is produced. Whatever
  the store is, a call that returns has returned 1 and removed the whole frame:
  no call leaves the frame at the head with a cursor of 4.
\<close>

theorem emit_on_ten_byte_frame:
  "work uint8_setslice (config_example\<lparr>out_buffer := [replicate 10 0xAA]\<rparr>) 4 4 =
     Inl ValueError \<and>
   (case work setslice (config_example\<lparr>out_buffer := [replicate 10 0xAA]\<rparr>) 4 4 of
      Inl e \<Rightarrow> True
    | Inr (self', r) \<Rightarrow>
        returned r = 1 \<and> assigned r = Some [replicate 10 0xAA] \<and> out_buffer self' = [])"
proof
  show "work uint8_setslice (config_example\<lparr>out_buffer := [replicate 10 0xAA]\<rparr>) 4 4 =
          Inl ValueError"
    by (simp add: work_uint8_raises)
next
  show "case work setslice (config_example\<lparr>out_buffer := [replicate 10 0xAA]\<rparr>) 4 4 of
          Inl e \<Rightarrow> True
        | Inr (self', r) \<Rightarrow>
            returned r = 1 \<and> assigned r = Some [replicate 10 0xAA] \<and> out_buffer self' = []"
  proof (cases "work setslice (config_example\<lparr>out_buffer := [replicate 10 0xAA]\<rparr>) 4 4")
    case (Inl e)
    then show ?thesis by simp
  next
    case (Inr p)
    obtain self' r where p: "p = (self', r)" by (cases p)
    from Inr p
    have "returned r = 1 \<and> assigned r = Some [replicate 10 0xAA] \<and> out_buffer self' = []"
      by (simp add: work_Inr)
    with Inr p show ?thesis by simp
  qed
qed

end
